theory Spec2Isabelle
  imports Complex_Main
begin

section \<open>Python strings\<close>

text \<open>
  A Python \<^verbatim>\<open>str\<close> is modelled as a \<^typ>\<open>string\<close>: a list of 8-bit characters, each read
  as the code point of the same number (0 to 255). The character classes below are the
  ones \<^verbatim>\<open>str.isspace\<close>, \<^verbatim>\<open>str.lower\<close> and the \<^verbatim>\<open>re\<close> module use on these code points.
\<close>

definition is_space :: "char \<Rightarrow> bool" where
  "is_space c =
     (c \<in> set [CHR 0x09, CHR 0x0A, CHR 0x0B, CHR 0x0C, CHR 0x0D, CHR 0x1C, CHR 0x1D, CHR 0x1E,
               CHR 0x1F, CHR 0x20, CHR 0x85, CHR 0xA0])"

definition is_digit :: "char \<Rightarrow> bool" where
  "is_digit c = (c \<in> set ''0123456789'')"

definition is_ascii_upper :: "char \<Rightarrow> bool" where
  "is_ascii_upper c = (c \<in> set ''ABCDEFGHIJKLMNOPQRSTUVWXYZ'')"

definition is_ascii_lower :: "char \<Rightarrow> bool" where
  "is_ascii_lower c = (c \<in> set ''abcdefghijklmnopqrstuvwxyz'')"

text \<open>
  The class \<^verbatim>\<open>\w\<close>: the alphanumeric code points and the underscore. Above ASCII these are
  0xAA, 0xB2, 0xB3, 0xB5, 0xB9, 0xBA, 0xBC to 0xBE, and the letters 0xC0 to 0xFF without
  0xD7 and 0xF7.
\<close>

definition high_word_chars :: string where
  "high_word_chars =
     [CHR 0xAA, CHR 0xB2, CHR 0xB3, CHR 0xB5, CHR 0xB9, CHR 0xBA, CHR 0xBC, CHR 0xBD,
      CHR 0xBE, CHR 0xC0, CHR 0xC1, CHR 0xC2, CHR 0xC3, CHR 0xC4, CHR 0xC5, CHR 0xC6,
      CHR 0xC7, CHR 0xC8, CHR 0xC9, CHR 0xCA, CHR 0xCB, CHR 0xCC, CHR 0xCD, CHR 0xCE,
      CHR 0xCF, CHR 0xD0, CHR 0xD1, CHR 0xD2, CHR 0xD3, CHR 0xD4, CHR 0xD5, CHR 0xD6,
      CHR 0xD8, CHR 0xD9, CHR 0xDA, CHR 0xDB, CHR 0xDC, CHR 0xDD, CHR 0xDE, CHR 0xDF,
      CHR 0xE0, CHR 0xE1, CHR 0xE2, CHR 0xE3, CHR 0xE4, CHR 0xE5, CHR 0xE6, CHR 0xE7,
      CHR 0xE8, CHR 0xE9, CHR 0xEA, CHR 0xEB, CHR 0xEC, CHR 0xED, CHR 0xEE, CHR 0xEF,
      CHR 0xF0, CHR 0xF1, CHR 0xF2, CHR 0xF3, CHR 0xF4, CHR 0xF5, CHR 0xF6, CHR 0xF8,
      CHR 0xF9, CHR 0xFA, CHR 0xFB, CHR 0xFC, CHR 0xFD, CHR 0xFE, CHR 0xFF]"

definition is_word :: "char \<Rightarrow> bool" where
  "is_word c =
     (is_digit c \<or> is_ascii_upper c \<or> is_ascii_lower c \<or> c = CHR ''_''
      \<or> c \<in> set high_word_chars)"

text \<open>
  \<^verbatim>\<open>str.lower\<close>: the upper-case letters A to Z, and 0xC0 to 0xDE without 0xD7, move up
  by 32; every other code point stays.
\<close>

definition upper_chars :: string where
  "upper_chars = ''ABCDEFGHIJKLMNOPQRSTUVWXYZ'' @
     [CHR 0xC0, CHR 0xC1, CHR 0xC2, CHR 0xC3, CHR 0xC4, CHR 0xC5, CHR 0xC6, CHR 0xC7,
      CHR 0xC8, CHR 0xC9, CHR 0xCA, CHR 0xCB, CHR 0xCC, CHR 0xCD, CHR 0xCE, CHR 0xCF,
      CHR 0xD0, CHR 0xD1, CHR 0xD2, CHR 0xD3, CHR 0xD4, CHR 0xD5, CHR 0xD6, CHR 0xD8,
      CHR 0xD9, CHR 0xDA, CHR 0xDB, CHR 0xDC, CHR 0xDD, CHR 0xDE]"

definition lower_chars :: string where
  "lower_chars = ''abcdefghijklmnopqrstuvwxyz'' @
     [CHR 0xE0, CHR 0xE1, CHR 0xE2, CHR 0xE3, CHR 0xE4, CHR 0xE5, CHR 0xE6, CHR 0xE7,
      CHR 0xE8, CHR 0xE9, CHR 0xEA, CHR 0xEB, CHR 0xEC, CHR 0xED, CHR 0xEE, CHR 0xEF,
      CHR 0xF0, CHR 0xF1, CHR 0xF2, CHR 0xF3, CHR 0xF4, CHR 0xF5, CHR 0xF6, CHR 0xF8,
      CHR 0xF9, CHR 0xFA, CHR 0xFB, CHR 0xFC, CHR 0xFD, CHR 0xFE]"

definition lower_char :: "char \<Rightarrow> char" where
  "lower_char c = (case map_of (zip upper_chars lower_chars) c of None \<Rightarrow> c | Some l \<Rightarrow> l)"

definition lower :: "string \<Rightarrow> string" where
  "lower s = map lower_char s"

definition strip :: "string \<Rightarrow> string" where
  "strip s = rev (dropWhile is_space (rev (dropWhile is_space s)))"

fun split_on :: "char \<Rightarrow> string \<Rightarrow> string list" where
  "split_on sep [] = [[]]"
| "split_on sep (c # cs) =
     (if c = sep then [] # split_on sep cs
      else (case split_on sep cs of [] \<Rightarrow> [[c]] | l # ls \<Rightarrow> (c # l) # ls))"

definition lines_of :: "string \<Rightarrow> string list" where
  "lines_of content = split_on (CHR 0x0A) content"

fun words_acc :: "string \<Rightarrow> string \<Rightarrow> string list" where
  "words_acc w [] = (if w = [] then [] else [w])"
| "words_acc w (c # cs) =
     (if is_space c then (if w = [] then words_acc [] cs else w # words_acc [] cs)
      else words_acc (w @ [c]) cs)"

definition split_ws :: "string \<Rightarrow> string list" where
  "split_ws s = words_acc [] s"

fun starts_with :: "string \<Rightarrow> string \<Rightarrow> bool" where
  "starts_with s [] = True"
| "starts_with [] (p # ps) = False"
| "starts_with (c # cs) (p # ps) = (if c = p then starts_with cs ps else False)"

text \<open>A literal in lower case matched without regard to case, as \<^verbatim>\<open>re.IGNORECASE\<close> does.\<close>

fun ci_starts_with :: "string \<Rightarrow> string \<Rightarrow> bool" where
  "ci_starts_with s [] = True"
| "ci_starts_with [] (p # ps) = False"
| "ci_starts_with (c # cs) (p # ps) = (if lower_char c = p then ci_starts_with cs ps else False)"

fun substr_in :: "string \<Rightarrow> string \<Rightarrow> bool" where
  "substr_in p [] = (p = [])"
| "substr_in p (c # cs) = (if starts_with (c # cs) p then True else substr_in p cs)"

fun join :: "string \<Rightarrow> string list \<Rightarrow> string" where
  "join sep [] = []"
| "join sep [x] = x"
| "join sep (x # y # ys) = x @ sep @ join sep (y # ys)"

definition digit_char :: "nat \<Rightarrow> char" where
  "digit_char d = (if d < 10 then ''0123456789'' ! d else CHR ''?'')"

fun show_digits :: "nat \<Rightarrow> nat \<Rightarrow> string" where
  "show_digits 0 n = []"
| "show_digits (Suc fuel) n =
     (if n < 10 then [digit_char n] else show_digits fuel (n div 10) @ [digit_char (n mod 10)])"

definition show_nat :: "nat \<Rightarrow> string" where
  "show_nat n = show_digits (Suc n) n"


section \<open>Python floats\<close>

text \<open>
  A \<^verbatim>\<open>float\<close> is a finite double (a rational), an infinity or NaN. Comparisons follow
  IEEE 754: every comparison with NaN is false. The three library primitives that round or
  print a float are parameters of the model, so that every theorem holds for the
  interpreter's own: \<open>round_to_float\<close> rounds an exact result to the nearest double,
  \<open>float_of_str\<close> is \<^verbatim>\<open>float(s)\<close> (\<open>None\<close> for \<^verbatim>\<open>ValueError\<close>), and \<open>format_float\<close> is
  \<^verbatim>\<open>format(x, spec)\<close> (the empty spec is what an f-string without a format gives).
\<close>

datatype pyfloat = Finite rat | PosInf | NegInf | NaN

record float_ops =
  round_to_float :: "rat \<Rightarrow> pyfloat"
  float_of_str :: "string \<Rightarrow> pyfloat option"
  format_float :: "string \<Rightarrow> pyfloat \<Rightarrow> string"

fun f_lt :: "pyfloat \<Rightarrow> pyfloat \<Rightarrow> bool" where
  "f_lt (Finite x) (Finite y) = (x < y)"
| "f_lt (Finite x) PosInf = True"
| "f_lt NegInf (Finite y) = True"
| "f_lt NegInf PosInf = True"
| "f_lt a b = False"

definition f_gt :: "pyfloat \<Rightarrow> pyfloat \<Rightarrow> bool" where
  "f_gt a b = f_lt b a"

fun f_ne :: "pyfloat \<Rightarrow> pyfloat \<Rightarrow> bool" where
  "f_ne NaN b = True"
| "f_ne a NaN = True"
| "f_ne a b = (a \<noteq> b)"



fun f_abs :: "pyfloat \<Rightarrow> pyfloat" where
  "f_abs (Finite x) = Finite \<bar>x\<bar>"
| "f_abs PosInf = PosInf"
| "f_abs NegInf = PosInf"
| "f_abs NaN = NaN"




text \<open>
  Division raises \<^verbatim>\<open>ZeroDivisionError\<close> on a zero divisor: \<open>None\<close> here.
\<close>

fun f_div :: "float_ops \<Rightarrow> pyfloat \<Rightarrow> pyfloat \<Rightarrow> pyfloat option" where
  "f_div ops (Finite x) (Finite y) = (if y = 0 then None else Some (round_to_float ops (x / y)))"
| "f_div ops NaN (Finite y) = (if y = 0 then None else Some NaN)"
| "f_div ops PosInf (Finite y) =
     (if y = 0 then None else Some (if 0 < y then PosInf else NegInf))"
| "f_div ops NegInf (Finite y) =
     (if y = 0 then None else Some (if 0 < y then NegInf else PosInf))"
| "f_div ops (Finite x) NaN = Some NaN"
| "f_div ops (Finite x) b = Some (Finite 0)"
| "f_div ops a b = Some NaN"

section \<open>Result records (schemas.py)\<close>

record ThermoData =
  step :: int
  temp :: "pyfloat option"
  press :: "pyfloat option"
  pe :: "pyfloat option"
  ke :: "pyfloat option"
  etotal :: "pyfloat option"

record L0Result =
  l0_passed :: bool
  placeholders_found :: "string list"
  unresolved_count :: nat
  l0_details :: "string list"

record L1Result =
  l1_passed :: bool
  syntax_errors :: "string list"
  physics_warnings :: "string list"
  line_numbers :: "nat list"
  l1_details :: "string list"

record L2Result =
  l2_passed :: bool
  l2_engine_output :: string
  l2_return_code :: int
  l2_execution_time :: pyfloat
  l2_details :: "string list"

record L3Result =
  l3_passed :: bool
  l3_engine_output :: string
  l3_return_code :: int
  l3_execution_time :: pyfloat
  steps_run :: int
  thermo_data :: "ThermoData list"
  thermo_warnings :: "string list"
  l3_details :: "string list"

record ValidationResult =
  overall_passed :: bool
  l0 :: L0Result
  l1 :: L1Result
  l2 :: L2Result
  l3 :: L3Result
  issues :: "string list"

section \<open>L3: thermodynamic sanity (validation/l3_physics.py)\<close>















subsection \<open>An instance of the float primitives for the examples\<close>









section \<open>L2 and L3: finding the engine (validation/l2_engine.py, l3_physics.py)\<close>





definition MINIMAL_STEPS :: int where
  "MINIMAL_STEPS = 20"



section \<open>L0: placeholders (validation/l0_placeholders.py)\<close>

text \<open>
  \<^verbatim>\<open>re.finditer\<close> over one line: the matcher gives the length of the match that starts at
  the head of the text it is given (with the character before it, for \<^verbatim>\<open>\b\<close>), the scan
  takes the leftmost match, then resumes after it. \<open>k\<close> counts the characters of the
  last match still to be skipped.
\<close>

fun finditer :: "(char option \<Rightarrow> string \<Rightarrow> nat option) \<Rightarrow> char option \<Rightarrow> nat \<Rightarrow> string \<Rightarrow> string list" where
  "finditer m prev k [] = (if k = 0 then (case m prev [] of None \<Rightarrow> [] | Some n \<Rightarrow> [[]]) else [])"
| "finditer m prev k (c # cs) =
     (if 0 < k then finditer m (Some c) (k - 1) cs
      else (case m prev (c # cs) of
              None \<Rightarrow> finditer m (Some c) 0 cs
            | Some n \<Rightarrow> take n (c # cs) # finditer m (Some c) (n - 1) cs))"

text \<open>
  The two template patterns, \<^verbatim>\<open>\{\{([A-Z_][A-Z0-9_]*)\}\}\<close> and \<^verbatim>\<open><([A-Z_][A-Z0-9_]*)>\<close>:
  the opening, one name start, the longest run of name characters, the closing. The closing
  starts with no name character, so the greedy run never gives a character back.
\<close>

definition name_start :: "char \<Rightarrow> bool" where
  "name_start c = (is_ascii_upper c \<or> c = CHR ''_'')"

definition name_char :: "char \<Rightarrow> bool" where
  "name_char c = (is_ascii_upper c \<or> is_digit c \<or> c = CHR ''_'')"

definition match_template :: "string \<Rightarrow> string \<Rightarrow> char option \<Rightarrow> string \<Rightarrow> nat option" where
  "match_template opn cls prev s =
     (if starts_with s opn then
        (case drop (length opn) s of
           [] \<Rightarrow> None
         | c # cs \<Rightarrow>
             if name_start c \<and> starts_with (dropWhile name_char cs) cls
             then Some (length opn + 1 + length (takeWhile name_char cs) + length cls)
             else None)
      else None)"

text \<open>
  The three marker patterns, \<^verbatim>\<open>\bTODO:\s*(.+?)(?:\n|$)\<close> and its like, matched without
  regard to case on a line, which holds no newline: a word boundary, the keyword and its
  colon, then at least one more character; the match runs to the end of the line.
\<close>

definition match_marker :: "string \<Rightarrow> char option \<Rightarrow> string \<Rightarrow> nat option" where
  "match_marker kw prev s =
     (if ci_starts_with s kw then
        (if (case prev of None \<Rightarrow> True | Some c \<Rightarrow> \<not> is_word c) \<and> drop (length kw) s \<noteq> []
         then Some (length s) else None)
      else None)"

datatype pattern_type = double_brace | angle_bracket | todo | fixme | xxx

definition PLACEHOLDER_PATTERNS :: "((char option \<Rightarrow> string \<Rightarrow> nat option) \<times> pattern_type) list" where
  "PLACEHOLDER_PATTERNS =
     [(match_template ''{{'' ''}}'', double_brace),
      (match_template ''<'' ''>'', angle_bracket),
      (match_marker ''todo:'', todo),
      (match_marker ''fixme:'', fixme),
      (match_marker ''xxx:'', xxx)]"

definition line_placeholders :: "nat \<times> string \<Rightarrow> (string \<times> pattern_type \<times> nat) list" where
  "line_placeholders nl =
     concat (map (\<lambda>(m, ty). map (\<lambda>full_match. (full_match, ty, fst nl)) (finditer m None 0 (snd nl)))
                 PLACEHOLDER_PATTERNS)"

definition find_placeholders :: "string \<Rightarrow> (string \<times> pattern_type \<times> nat) list" where
  "find_placeholders content = concat (map line_placeholders (enumerate 1 (lines_of content)))"

fun type_upper :: "pattern_type \<Rightarrow> string" where
  "type_upper double_brace = ''DOUBLE_BRACE''"
| "type_upper angle_bracket = ''ANGLE_BRACKET''"
| "type_upper todo = ''TODO''"
| "type_upper fixme = ''FIXME''"
| "type_upper xxx = ''XXX''"

definition template_placeholders :: "string \<Rightarrow> (string \<times> pattern_type \<times> nat) list" where
  "template_placeholders content =
     filter (\<lambda>p. fst (snd p) \<in> {double_brace, angle_bracket}) (find_placeholders content)"

definition markers :: "string \<Rightarrow> (string \<times> pattern_type \<times> nat) list" where
  "markers content = filter (\<lambda>p. fst (snd p) \<in> {todo, fixme, xxx}) (find_placeholders content)"

definition validate_l0 :: "string \<Rightarrow> L0Result" where
  "validate_l0 content =
     \<lparr> l0_passed = (length (template_placeholders content) = 0),
       placeholders_found = map fst (template_placeholders content) @ map fst (markers content),
       unresolved_count = length (template_placeholders content),
       l0_details =
         map (\<lambda>(placeholder_text, pattern_type, line_num).
                ''Line '' @ show_nat line_num @ '': Unresolved placeholder '' @ placeholder_text)
             (template_placeholders content)
         @ map (\<lambda>(marker_text, pattern_type, line_num).
                ''Line '' @ show_nat line_num @ '': '' @ type_upper pattern_type
                @ '' marker found: '' @ marker_text)
             (markers content) \<rparr>"

text \<open>A name as the two template patterns admit it: \<^verbatim>\<open>[A-Z_][A-Z0-9_]*\<close>.\<close>

definition valid_name :: "string \<Rightarrow> bool" where
  "valid_name name = (case name of [] \<Rightarrow> False | c # cs \<Rightarrow> name_start c \<and> list_all name_char cs)"

text \<open>
  The specification's "input containing a \<^verbatim>\<open>{{NAME}}\<close> or \<^verbatim>\<open><NAME>\<close> token": the text holds,
  somewhere, an opening, a name and the closing.
\<close>

definition has_template_token :: "string \<Rightarrow> bool" where
  "has_template_token c =
     (\<exists>pre name post. valid_name name
        \<and> (c = pre @ ''{{'' @ name @ ''}}'' @ post \<or> c = pre @ ''<'' @ name @ ''>'' @ post))"

section \<open>L1: syntax and physics (validation/l1_syntax.py)\<close>

text \<open>
  The range tables, in the order of the source. The bounds are the doubles the literals
  denote: 0.0001, 0.01, 0.1, 1e-18 and 1e-14 are not dyadic, the others are exact.
\<close>

definition d_0_0001 :: rat where "d_0_0001 = 7378697629483821 / 73786976294838206464"
definition d_0_01 :: rat where "d_0_01 = 5764607523034235 / 576460752303423488"
definition d_0_1 :: rat where "d_0_1 = 3602879701896397 / 36028797018963968"
definition d_1e_18 :: rat where "d_1e_18 = 1298074214633707 / 1298074214633706907132624082305024"
definition d_1e_14 :: rat where "d_1e_14 = 6338253001141147 / 633825300114114700748351602688"

definition TIMESTEP_RANGES :: "(string \<times> pyfloat \<times> pyfloat) list" where
  "TIMESTEP_RANGES =
     [(''lj'', Finite d_0_0001, Finite d_0_01),
      (''real'', Finite d_0_1, Finite 10),
      (''metal'', Finite d_0_0001, Finite d_0_01),
      (''si'', Finite d_1e_18, Finite d_1e_14),
      (''cgs'', Finite d_1e_18, Finite d_1e_14),
      (''electron'', Finite d_0_0001, Finite d_0_01),
      (''micro'', Finite d_0_1, Finite 100),
      (''nano'', Finite d_0_0001, Finite 1)]"

definition TEMPERATURE_RANGES :: "(string \<times> pyfloat \<times> pyfloat) list" where
  "TEMPERATURE_RANGES =
     [(''lj'', Finite d_0_01, Finite 10),
      (''real'', Finite 1, Finite 10000),
      (''metal'', Finite 1, Finite 10000),
      (''si'', Finite 1, Finite 10000),
      (''cgs'', Finite 1, Finite 10000),
      (''electron'', Finite 1, Finite 10000),
      (''micro'', Finite 1, Finite 10000),
      (''nano'', Finite 1, Finite 10000)]"

definition REQUIRED_COMMANDS :: "(string \<times> string) list" where
  "REQUIRED_COMMANDS =
     [(''units'', ''No '' @ [CHR 0x27] @ ''units'' @ [CHR 0x27]
         @ '' command found - required for defining unit system''),
      (''atom_style'', ''No '' @ [CHR 0x27] @ ''atom_style'' @ [CHR 0x27]
         @ '' command found - required for defining atom properties'')]"

text \<open>\<^verbatim>\<open>STRUCTURE_COMMANDS\<close> and \<^verbatim>\<open>VALID_UNITS\<close>, as \<^verbatim>\<open>sorted\<close> lists them.\<close>

definition STRUCTURE_COMMANDS :: "string list" where
  "STRUCTURE_COMMANDS = [''create_atoms'', ''create_box'', ''read_data'', ''read_restart'']"

definition VALID_UNITS :: "string list" where
  "VALID_UNITS = [''cgs'', ''electron'', ''lj'', ''metal'', ''micro'', ''nano'', ''real'', ''si'']"

definition VALID_ATOM_STYLES :: "string list" where
  "VALID_ATOM_STYLES =
     [''atomic'', ''angle'', ''bond'', ''charge'', ''dipole'', ''dpd'', ''edpd'', ''mdpd'', ''tdpd'',
      ''electron'', ''ellipsoid'', ''full'', ''line'', ''meso'', ''molecular'', ''peri'', ''smd'',
      ''sphere'', ''spin'', ''template'', ''tri'', ''wavepacket'', ''hybrid'']"

definition parse_command :: "string \<Rightarrow> (string \<times> string list) option" where
  "parse_command line =
     (case split_on (CHR ''#'') line of
        [] \<Rightarrow> None
      | before_comment # rest \<Rightarrow>
          (case split_ws (strip before_comment) of
             [] \<Rightarrow> None
           | command # args \<Rightarrow> Some (lower command, args)))"

definition check_required_commands :: "string set \<Rightarrow> (string \<times> string) list" where
  "check_required_commands commands_found =
     map (\<lambda>(cmd, message). (''missing_required'', message))
         (filter (\<lambda>(cmd, message). cmd \<notin> commands_found) REQUIRED_COMMANDS)"

definition check_structure_commands :: "string set \<Rightarrow> (string \<times> string) list" where
  "check_structure_commands commands_found =
     (if list_ex (\<lambda>cmd. cmd \<in> commands_found) STRUCTURE_COMMANDS then []
      else [(''missing_structure'',
             ''No structure command found - need one of: '' @ join '', '' STRUCTURE_COMMANDS)])"

definition check_pair_definitions :: "string set \<Rightarrow> (string \<times> string) list" where
  "check_pair_definitions commands_found =
     (if ''pair_style'' \<in> commands_found \<and> ''pair_coeff'' \<notin> commands_found then
        [(''missing_pair_coeff'', ''pair_style defined but no pair_coeff found'')]
      else if ''pair_coeff'' \<in> commands_found \<and> ''pair_style'' \<notin> commands_found then
        [(''missing_pair_style'', ''pair_coeff defined but no pair_style found'')]
      else [])"

definition validate_units_command :: "string list \<Rightarrow> string option" where
  "validate_units_command args =
     (case args of
        [] \<Rightarrow> Some ''units command requires a unit system argument''
      | a # rest \<Rightarrow>
          if lower a \<notin> set VALID_UNITS then
            Some (''Unknown unit system '' @ [CHR 0x27] @ lower a @ [CHR 0x27]
                  @ '' - valid options: '' @ join '', '' VALID_UNITS)
          else None)"

definition validate_atom_style_command :: "string list \<Rightarrow> string option" where
  "validate_atom_style_command args =
     (case args of
        [] \<Rightarrow> Some ''atom_style command requires a style argument''
      | a # rest \<Rightarrow>
          if lower a \<notin> set VALID_ATOM_STYLES then
            Some (''Unknown atom style '' @ [CHR 0x27] @ lower a @ [CHR 0x27]
                  @ '' - check LAMMPS documentation for valid styles'')
          else None)"

text \<open>
  The checks of one line of \<^verbatim>\<open>_check_common_syntax_errors\<close>, on the stripped line; the
  look-up of the command among the known ones that ends the loop body records nothing.
\<close>

definition line_syntax_errors :: "string \<Rightarrow> string list" where
  "line_syntax_errors stripped =
     (if count_list stripped (CHR 0x27) mod 2 \<noteq> 0 then [''Unbalanced single quotes''] else [])
     @ (if count_list stripped (CHR 0x22) mod 2 \<noteq> 0 then [''Unbalanced double quotes''] else [])
     @ (if count_list stripped (CHR ''('') \<noteq> count_list stripped (CHR '')'')
        then [''Unbalanced parentheses''] else [])
     @ (if count_list stripped (CHR ''['') \<noteq> count_list stripped (CHR '']'')
        then [''Unbalanced brackets''] else [])
     @ (if count_list stripped (CHR ''{'') \<noteq> count_list stripped (CHR ''}'')
        then [''Unbalanced braces''] else [])"

definition check_line :: "nat \<times> string \<Rightarrow> (nat \<times> string) list" where
  "check_line nl =
     (let stripped = strip (snd nl) in
      if stripped = [] \<or> starts_with stripped ''#'' then []
      else map (\<lambda>e. (fst nl, e)) (line_syntax_errors stripped))"

definition check_common_syntax_errors :: "string \<Rightarrow> (nat \<times> string) list" where
  "check_common_syntax_errors content = concat (map check_line (enumerate 1 (lines_of content)))"

text \<open>
  \<^verbatim>\<open>re.search\<close>: the leftmost position where the matcher succeeds, the end of the text
  included.
\<close>

fun re_search :: "(char option \<Rightarrow> string \<Rightarrow> 'a option) \<Rightarrow> char option \<Rightarrow> string \<Rightarrow> 'a option" where
  "re_search m prev [] = m prev []"
| "re_search m prev (c # cs) =
     (case m prev (c # cs) of Some r \<Rightarrow> Some r | None \<Rightarrow> re_search m (Some c) cs)"

text \<open>The class \<^verbatim>\<open>[\d.eE+-]\<close>.\<close>

definition num_char :: "char \<Rightarrow> bool" where
  "num_char c = (is_digit c \<or> c \<in> set ''.eE+-'')"

text \<open>
  \<^verbatim>\<open>\s+([\d.eE+-]+)\<close> at the head of a text: the longest run of white space, then the
  longest run of the class, both non-empty; the group and the rest. The two classes are
  disjoint, so no shorter run can match where the longest does not.
\<close>

definition space_then_number :: "string \<Rightarrow> (string \<times> string) option" where
  "space_then_number s =
     (let r = dropWhile is_space s in
      if takeWhile is_space s \<noteq> [] \<and> takeWhile num_char r \<noteq> []
      then Some (takeWhile num_char r, dropWhile num_char r) else None)"

text \<open>\<^verbatim>\<open>re.match(r"timestep\s+([\d.eE+-]+)", stripped, re.IGNORECASE)\<close>: group 1.\<close>

definition match_timestep :: "string \<Rightarrow> string option" where
  "match_timestep s =
     (if ci_starts_with s ''timestep'' then
        (case space_then_number (drop 8 s) of None \<Rightarrow> None | Some (g, rest) \<Rightarrow> Some g)
      else None)"

fun parse_timestep_lines :: "float_ops \<Rightarrow> string list \<Rightarrow> pyfloat option" where
  "parse_timestep_lines ops [] = None"
| "parse_timestep_lines ops (line # ls) =
     (if starts_with (strip line) ''#'' then parse_timestep_lines ops ls
      else (case match_timestep (strip line) of
              Some g \<Rightarrow> float_of_str ops g
            | None \<Rightarrow> parse_timestep_lines ops ls))"

definition parse_timestep :: "float_ops \<Rightarrow> string \<Rightarrow> pyfloat option" where
  "parse_timestep ops content = parse_timestep_lines ops (lines_of content)"

text \<open>
  \<^verbatim>\<open>\b(nvt|npt|langevin|temp/berendsen)\b\<close>: every alternative starts and ends with a word
  character, so the boundaries ask for no word character before and none after.
\<close>

definition match_thermostat :: "char option \<Rightarrow> string \<Rightarrow> unit option" where
  "match_thermostat prev s =
     (if (case prev of None \<Rightarrow> True | Some c \<Rightarrow> \<not> is_word c)
         \<and> list_ex (\<lambda>w. ci_starts_with s w
                         \<and> (case drop (length w) s of [] \<Rightarrow> True | d # ds \<Rightarrow> \<not> is_word d))
                    [''nvt'', ''npt'', ''langevin'', ''temp/berendsen'']
      then Some () else None)"

text \<open>\<^verbatim>\<open>temp\s+([\d.eE+-]+)\s+([\d.eE+-]+)\<close>: groups 1 and 2.\<close>

definition match_temp_pair :: "char option \<Rightarrow> string \<Rightarrow> (string \<times> string) option" where
  "match_temp_pair prev s =
     (if ci_starts_with s ''temp'' then
        (case space_then_number (drop 4 s) of
           None \<Rightarrow> None
         | Some (g1, rest) \<Rightarrow>
             (case space_then_number rest of None \<Rightarrow> None | Some (g2, rest2) \<Rightarrow> Some (g1, g2)))
      else None)"

text \<open>\<^verbatim>\<open>velocity\s+\S+\s+create\s+([\d.eE+-]+)\<close>: group 1.\<close>

definition match_velocity :: "char option \<Rightarrow> string \<Rightarrow> string option" where
  "match_velocity prev s =
     (if ci_starts_with s ''velocity'' then
        (let r1 = drop 8 s; r2 = dropWhile is_space r1;
             r3 = dropWhile (\<lambda>c. \<not> is_space c) r2; r4 = dropWhile is_space r3
         in if takeWhile is_space r1 \<noteq> [] \<and> takeWhile (\<lambda>c. \<not> is_space c) r2 \<noteq> []
               \<and> takeWhile is_space r3 \<noteq> [] \<and> ci_starts_with r4 ''create''
            then (case space_then_number (drop 6 r4) of None \<Rightarrow> None | Some (g, rest) \<Rightarrow> Some g)
            else None)
      else None)"

text \<open>The two blocks of the loop body of \<^verbatim>\<open>_parse_temperatures\<close>, on the stripped line.\<close>

definition fix_temperatures :: "float_ops \<Rightarrow> nat \<Rightarrow> string \<Rightarrow> (pyfloat \<times> nat \<times> string) list" where
  "fix_temperatures ops line_num stripped =
     (if re_search match_thermostat None stripped \<noteq> None then
        (case re_search match_temp_pair None stripped of
           None \<Rightarrow> []
         | Some (g1, g2) \<Rightarrow>
             (case float_of_str ops g1 of
                None \<Rightarrow> []
              | Some t_start \<Rightarrow>
                  (case float_of_str ops g2 of
                     None \<Rightarrow> []
                   | Some t_end \<Rightarrow>
                       [(t_start, line_num, ''fix temperature start''),
                        (t_end, line_num, ''fix temperature end'')])))
      else [])"

definition velocity_temperatures :: "float_ops \<Rightarrow> nat \<Rightarrow> string \<Rightarrow> (pyfloat \<times> nat \<times> string) list" where
  "velocity_temperatures ops line_num stripped =
     (if starts_with (lower stripped) ''velocity'' then
        (case re_search match_velocity None stripped of
           None \<Rightarrow> []
         | Some g \<Rightarrow>
             (case float_of_str ops g of
                None \<Rightarrow> []
              | Some t \<Rightarrow> [(t, line_num, ''velocity create'')]))
      else [])"

definition line_temperatures :: "float_ops \<Rightarrow> nat \<times> string \<Rightarrow> (pyfloat \<times> nat \<times> string) list" where
  "line_temperatures ops nl =
     (if starts_with (strip (snd nl)) ''#'' then []
      else fix_temperatures ops (fst nl) (strip (snd nl))
           @ velocity_temperatures ops (fst nl) (strip (snd nl)))"

definition parse_temperatures :: "float_ops \<Rightarrow> string \<Rightarrow> (pyfloat \<times> nat \<times> string) list" where
  "parse_temperatures ops content =
     concat (map (line_temperatures ops) (enumerate 1 (lines_of content)))"

definition check_timestep_physics :: "float_ops \<Rightarrow> pyfloat \<Rightarrow> string \<Rightarrow> string list" where
  "check_timestep_physics ops timestep units =
     (case map_of TIMESTEP_RANGES units of
        None \<Rightarrow> []
      | Some (min_ts, max_ts) \<Rightarrow>
          if f_lt timestep min_ts then
            [''Timestep '' @ format_float ops [] timestep @ '' is very small for '' @ [CHR 0x27]
             @ units @ [CHR 0x27] @ '' units (recommended: '' @ format_float ops [] min_ts
             @ '' - '' @ format_float ops [] max_ts @ ''). This may cause slow simulations.'']
          else if f_gt timestep max_ts then
            [''Timestep '' @ format_float ops [] timestep @ '' is very large for '' @ [CHR 0x27]
             @ units @ [CHR 0x27] @ '' units (recommended: '' @ format_float ops [] min_ts
             @ '' - '' @ format_float ops [] max_ts @ ''). This may cause instability.'']
          else [])"

definition temperature_warning ::
  "float_ops \<Rightarrow> pyfloat \<Rightarrow> pyfloat \<Rightarrow> pyfloat \<times> nat \<times> string \<Rightarrow> string list" where
  "temperature_warning ops min_temp max_temp tlc =
     (case tlc of (t, line_num, ctx) \<Rightarrow>
        if f_lt t (Finite 0) then
          [''Line '' @ show_nat line_num @ '': Negative temperature '' @ format_float ops [] t
           @ '' in '' @ ctx @ ''. Temperature must be positive.'']
        else if f_lt t min_temp then
          [''Line '' @ show_nat line_num @ '': Very low temperature '' @ format_float ops [] t
           @ '' in '' @ ctx @ '' (typical range: '' @ format_float ops [] min_temp @ '' - ''
           @ format_float ops [] max_temp @ '').'']
        else if f_gt t max_temp then
          [''Line '' @ show_nat line_num @ '': Very high temperature '' @ format_float ops [] t
           @ '' in '' @ ctx @ '' (typical range: '' @ format_float ops [] min_temp @ '' - ''
           @ format_float ops [] max_temp @ '').'']
        else [])"

definition check_temperature_physics ::
  "float_ops \<Rightarrow> (pyfloat \<times> nat \<times> string) list \<Rightarrow> string \<Rightarrow> string list" where
  "check_temperature_physics ops temperatures units =
     (case map_of TEMPERATURE_RANGES units of
        None \<Rightarrow> []
      | Some (min_temp, max_temp) \<Rightarrow>
          concat (map (temperature_warning ops min_temp max_temp) temperatures))"

text \<open>
  The first loop of \<^verbatim>\<open>validate_l1\<close>: the set of the commands found and the dictionary of
  their arguments, each assignment \<^verbatim>\<open>command_args[cmd] = args\<close> replacing the entry.
\<close>

definition record_command ::
  "string set \<times> (string \<rightharpoonup> string list) \<Rightarrow> string \<Rightarrow> string set \<times> (string \<rightharpoonup> string list)" where
  "record_command st line =
     (case parse_command line of
        None \<Rightarrow> st
      | Some (cmd, args) \<Rightarrow> (insert cmd (fst st), (snd st)(cmd \<mapsto> args)))"

definition parse_commands :: "string \<Rightarrow> string set \<times> (string \<rightharpoonup> string list)" where
  "parse_commands content = foldl record_command ({}, Map.empty) (lines_of content)"

definition commands_found :: "string \<Rightarrow> string set" where
  "commands_found content = fst (parse_commands content)"

definition command_args :: "string \<Rightarrow> (string \<rightharpoonup> string list)" where
  "command_args content = snd (parse_commands content)"

text \<open>The unit system of the physics pass: \<^verbatim>\<open>lj\<close> unless a units command has an argument.\<close>

definition l1_units :: "string \<Rightarrow> string" where
  "l1_units content =
     (case command_args content ''units'' of
        None \<Rightarrow> ''lj''
      | Some [] \<Rightarrow> ''lj''
      | Some (a # rest) \<Rightarrow> lower a)"

definition l1_syntax_errors :: "string \<Rightarrow> string list" where
  "l1_syntax_errors content =
     map snd (check_required_commands (commands_found content))
     @ map snd (check_structure_commands (commands_found content))
     @ (case command_args content ''units'' of
          None \<Rightarrow> []
        | Some args \<Rightarrow> (case validate_units_command args of None \<Rightarrow> [] | Some e \<Rightarrow> [e]))
     @ (case command_args content ''atom_style'' of
          None \<Rightarrow> []
        | Some args \<Rightarrow> (case validate_atom_style_command args of None \<Rightarrow> [] | Some e \<Rightarrow> [e]))
     @ map (\<lambda>(line_num, e). ''Line '' @ show_nat line_num @ '': '' @ e)
           (check_common_syntax_errors content)"

definition l1_timestep_warnings :: "float_ops \<Rightarrow> string \<Rightarrow> string list" where
  "l1_timestep_warnings ops content =
     (case parse_timestep ops content of
        None \<Rightarrow> []
      | Some timestep \<Rightarrow> check_timestep_physics ops timestep (l1_units content))"

definition l1_temperature_warnings :: "float_ops \<Rightarrow> string \<Rightarrow> string list" where
  "l1_temperature_warnings ops content =
     (if parse_temperatures ops content = [] then []
      else check_temperature_physics ops (parse_temperatures ops content) (l1_units content))"

definition l1_physics_warnings :: "float_ops \<Rightarrow> string \<Rightarrow> string list" where
  "l1_physics_warnings ops content =
     l1_timestep_warnings ops content @ l1_temperature_warnings ops content"

definition l1_details_of :: "float_ops \<Rightarrow> string \<Rightarrow> string list" where
  "l1_details_of ops content =
     map (\<lambda>(error_type, message). ''Error: '' @ message)
         (check_required_commands (commands_found content))
     @ map (\<lambda>(error_type, message). ''Error: '' @ message)
           (check_structure_commands (commands_found content))
     @ map (\<lambda>(warning_type, message). ''Warning: '' @ message)
           (check_pair_definitions (commands_found content))
     @ (case command_args content ''units'' of
          None \<Rightarrow> []
        | Some args \<Rightarrow>
            (case validate_units_command args of None \<Rightarrow> [] | Some e \<Rightarrow> [''Error: '' @ e]))
     @ (case command_args content ''atom_style'' of
          None \<Rightarrow> []
        | Some args \<Rightarrow>
            (case validate_atom_style_command args of None \<Rightarrow> [] | Some e \<Rightarrow> [''Error: '' @ e]))
     @ map (\<lambda>(line_num, e). ''Syntax error at line '' @ show_nat line_num @ '': '' @ e)
           (check_common_syntax_errors content)
     @ (case parse_timestep ops content of
          None \<Rightarrow> [''No timestep command found, using LAMMPS default'']
        | Some timestep \<Rightarrow>
            map (\<lambda>w. ''Physics warning: '' @ w) (l1_timestep_warnings ops content))
     @ map (\<lambda>w. ''Physics warning: '' @ w) (l1_temperature_warnings ops content)"

definition validate_l1 :: "float_ops \<Rightarrow> string \<Rightarrow> L1Result" where
  "validate_l1 ops content =
     (let critical_physics =
            filter (substr_in ''Negative temperature'') (l1_physics_warnings ops content)
      in \<lparr> l1_passed = (length (l1_syntax_errors content) = 0 \<and> length critical_physics = 0),
           syntax_errors = l1_syntax_errors content,
           physics_warnings = l1_physics_warnings ops content,
           line_numbers = map fst (check_common_syntax_errors content),
           l1_details = l1_details_of ops content \<rparr>)"

text \<open>
  The argument list of a command as the specification has it, "first-seen", and as the
  dictionary keeps it, last-seen: the arguments of the first, and of the last, line that
  parses to the command.
\<close>

definition occurrences :: "string \<Rightarrow> string \<Rightarrow> string list list" where
  "occurrences cmd content =
     map snd (filter (\<lambda>ca. fst ca = cmd) (List.map_filter parse_command (lines_of content)))"

definition first_seen_args :: "string \<Rightarrow> string \<Rightarrow> string list option" where
  "first_seen_args cmd content =
     (case occurrences cmd content of [] \<Rightarrow> None | a # rest \<Rightarrow> Some a)"

definition last_seen_args :: "string \<Rightarrow> string \<Rightarrow> string list option" where
  "last_seen_args cmd content =
     (case rev (occurrences cmd content) of [] \<Rightarrow> None | a # rest \<Rightarrow> Some a)"

section \<open>Verified properties\<close>

subsection \<open>L3: thermodynamic sanity\<close>







text \<open>The two guards exclude the zero divisor, so neither division raises.\<close>

lemma f_div_temp_guard: "f_gt a (Finite 0) \<Longrightarrow> f_div ops b a \<noteq> None"
  by (cases a; cases b) (auto simp: f_gt_def)

lemma f_div_energy_guard: "f_ne e (Finite 0) \<Longrightarrow> f_div ops x (f_abs e) \<noteq> None"
  by (cases e; cases x) auto



subsection \<open>L2 and L3 without an engine\<close>




subsection \<open>L0: placeholders\<close>

lemma starts_with_iff: "starts_with s p \<longleftrightarrow> (\<exists>r. s = p @ r)"
  by (induction s p rule: starts_with.induct) auto

lemma starts_with_append [simp]: "starts_with (p @ r) p"
  by (simp add: starts_with_iff)

lemma match_template_Some:
  assumes "match_template opn cls prev s = Some n"
  shows "\<exists>name r. valid_name name \<and> s = opn @ name @ cls @ r \<and> n = length (opn @ name @ cls)"
proof -
  from assms obtain r0 where s: "s = opn @ r0"
    by (auto simp: match_template_def starts_with_iff split: if_splits)
  with assms obtain c cs where r0: "r0 = c # cs" and c: "name_start c"
    and cl: "starts_with (dropWhile name_char cs) cls"
    and n: "n = length opn + 1 + length (takeWhile name_char cs) + length cls"
    by (auto simp: match_template_def split: if_splits list.splits)
  from cl obtain r where r: "dropWhile name_char cs = cls @ r"
    by (auto simp: starts_with_iff)
  let ?name = "c # takeWhile name_char cs"
  have "valid_name ?name"
    using c by (simp add: valid_name_def list_all_iff) (meson set_takeWhileD)
  moreover have "s = opn @ ?name @ cls @ r"
    using s r0 r by (metis append_Cons append_assoc takeWhile_dropWhile_id)
  moreover have "n = length (opn @ ?name @ cls)" using n by simp
  ultimately show ?thesis by blast
qed

lemma match_template_hit:
  assumes "valid_name name" and "cls \<noteq> []" and "\<not> name_char (hd cls)"
  shows "match_template opn cls prev (opn @ name @ cls @ post) \<noteq> None"
proof -
  from assms(1) obtain c cs where name: "name = c # cs" and c: "name_start c"
    and cs: "list_all name_char cs"
    by (auto simp: valid_name_def split: list.splits)
  from assms(2,3) obtain d ds where cls: "cls = d # ds" and d: "\<not> name_char d"
    by (cases cls) auto
  have "dropWhile name_char (cs @ cls @ post) = cls @ post"
    using cs d cls by (simp add: list_all_iff dropWhile_append3)
  then show ?thesis
    using c by (simp add: match_template_def name)
qed

lemma finditer_hit:
  assumes "\<And>p. m p s2 \<noteq> None" and "k \<le> length s1"
  shows "finditer m prev k (s1 @ s2) \<noteq> []"
  using assms(2)
proof (induction s1 arbitrary: prev k)
  case Nil
  then show ?case using assms(1) [of prev] by (cases s2) (auto split: option.splits)
next
  case (Cons c cs)
  show ?case
  proof (cases "0 < k")
    case True
    with Cons.prems have "k - 1 \<le> length cs" by simp
    from Cons.IH [OF this] True show ?thesis by simp
  next
    case False
    then show ?thesis using Cons.IH [of 0] by (auto split: option.splits)
  qed
qed

lemma finditer_sound:
  "x \<in> set (finditer m prev k s) \<Longrightarrow> \<exists>a b p n. s = a @ b \<and> m p b = Some n \<and> x = take n b"
proof (induction s arbitrary: prev k)
  case Nil
  show ?case
  proof (cases "m prev []")
    case None
    with Nil show ?thesis by (cases "k = 0") simp_all
  next
    case (Some n)
    from Nil have "x = []" by (cases "k = 0") (simp_all add: Some)
    then have "[] = [] @ ([]::string)" "m prev [] = Some n" "x = take n []"
      using Some by simp_all
    then show ?thesis by blast
  qed
next
  case (Cons c cs)
  have step: "\<exists>a b p n. c # cs = a @ b \<and> m p b = Some n \<and> x = take n b"
    if "x \<in> set (finditer m q j cs)" for q j
  proof -
    from Cons.IH [OF that] obtain a b p n where "cs = a @ b" "m p b = Some n" "x = take n b"
      by blast
    then have "c # cs = (c # a) @ b" by simp
    then show ?thesis using \<open>m p b = Some n\<close> \<open>x = take n b\<close> by blast
  qed
  show ?case
  proof (cases "0 < k")
    case True
    with Cons.prems have "x \<in> set (finditer m (Some c) (k - 1) cs)" by simp
    then show ?thesis by (rule step)
  next
    case False
    show ?thesis
    proof (cases "m prev (c # cs)")
      case None
      with Cons.prems False have "x \<in> set (finditer m (Some c) 0 cs)" by simp
      then show ?thesis by (rule step)
    next
      case (Some n)
      with Cons.prems False consider "x = take n (c # cs)"
        | "x \<in> set (finditer m (Some c) (n - 1) cs)"
        by auto
      then show ?thesis
      proof cases
        case 1
        have "c # cs = [] @ (c # cs)" by simp
        then show ?thesis using Some 1 by blast
      next
        case 2
        then show ?thesis by (rule step)
      qed
    qed
  qed
qed

lemma split_on_nonempty [simp]: "split_on sep s \<noteq> []"
  by (induction s) (auto split: list.splits)

lemma split_on_hd_prefix: "split_on sep s = x # xs \<Longrightarrow> \<exists>b. s = x @ b"
proof (induction s arbitrary: x xs)
  case Nil
  then show ?case by simp
next
  case (Cons d s)
  then show ?case by (auto split: if_splits list.splits)
qed

lemma split_on_hd_token:
  "sep \<notin> set tok \<Longrightarrow> \<exists>b. hd (split_on sep (tok @ post)) = tok @ b"
proof (induction tok)
  case Nil
  then show ?case by simp
next
  case (Cons t ts)
  then show ?case by (auto split: list.splits)
qed

lemma split_on_contains:
  assumes "sep \<notin> set tok"
  shows "\<exists>l \<in> set (split_on sep (pre @ tok @ post)). \<exists>a b. l = a @ tok @ b"
proof (induction pre)
  case Nil
  from split_on_hd_token [OF assms, of post]
  obtain b where "hd (split_on sep (tok @ post)) = [] @ tok @ b" by auto
  moreover have "hd (split_on sep (tok @ post)) \<in> set (split_on sep (tok @ post))" by simp
  ultimately show ?case by (metis append_Nil)
next
  case (Cons c pre)
  then obtain l a b where l: "l \<in> set (split_on sep (pre @ tok @ post))" "l = a @ tok @ b"
    by blast
  show ?case
  proof (cases "c = sep")
    case True
    then show ?thesis using l by auto
  next
    case False
    obtain x xs where sp: "split_on sep (pre @ tok @ post) = x # xs"
      by (cases "split_on sep (pre @ tok @ post)") auto
    show ?thesis
    proof (cases "l = x")
      case True
      then have "c # l \<in> set (split_on sep ((c # pre) @ tok @ post))" using False sp by simp
      moreover have "c # l = (c # a) @ tok @ b" using l by simp
      ultimately show ?thesis by blast
    next
      case other: False
      then have "l \<in> set (split_on sep ((c # pre) @ tok @ post))" using False sp l by auto
      then show ?thesis using l by blast
    qed
  qed
qed

lemma split_on_part:
  "l \<in> set (split_on sep s) \<Longrightarrow> \<exists>a b. s = a @ l @ b"
proof (induction s arbitrary: l)
  case Nil
  then show ?case by simp
next
  case (Cons c s)
  show ?case
  proof (cases "c = sep")
    case True
    with Cons.prems have "l = [] \<or> l \<in> set (split_on sep s)" by auto
    then show ?thesis
    proof
      assume "l = []"
      then have "c # s = [] @ l @ (c # s)" by simp
      then show ?thesis by blast
    next
      assume "l \<in> set (split_on sep s)"
      from Cons.IH [OF this] obtain a b where "s = a @ l @ b" by blast
      then have "c # s = (c # a) @ l @ b" by simp
      then show ?thesis by blast
    qed
  next
    case False
    obtain x xs where sp: "split_on sep s = x # xs"
      by (cases "split_on sep s") auto
    with Cons.prems False have "l = c # x \<or> l \<in> set xs" by auto
    then show ?thesis
    proof
      assume l: "l = c # x"
      from split_on_hd_prefix [OF sp] obtain b' where "s = x @ b'" by blast
      then have "c # s = [] @ l @ b'" using l by simp
      then show ?thesis by blast
    next
      assume "l \<in> set xs"
      then have "l \<in> set (split_on sep s)" using sp by simp
      from Cons.IH [OF this] obtain a b where "s = a @ l @ b" by blast
      then have "c # s = (c # a) @ l @ b" by simp
      then show ?thesis by blast
    qed
  qed
qed


lemma set_enumerate_snd: "snd ` set (enumerate n xs) = set xs"
  by (induction xs arbitrary: n) auto

lemma filter_line_placeholders:
  "filter (\<lambda>p. fst (snd p) \<in> {double_brace, angle_bracket}) (line_placeholders nl) = [] \<longleftrightarrow>
     finditer (match_template ''{{'' ''}}'') None 0 (snd nl) = []
     \<and> finditer (match_template ''<'' ''>'') None 0 (snd nl) = []"
  by (simp add: line_placeholders_def PLACEHOLDER_PATTERNS_def filter_map o_def)

lemma template_placeholders_empty:
  "template_placeholders c = [] \<longleftrightarrow>
     (\<forall>l \<in> set (lines_of c). finditer (match_template ''{{'' ''}}'') None 0 l = []
        \<and> finditer (match_template ''<'' ''>'') None 0 l = [])"
proof -
  have "template_placeholders c = [] \<longleftrightarrow>
     (\<forall>nl \<in> set (enumerate 1 (lines_of c)).
        filter (\<lambda>p. fst (snd p) \<in> {double_brace, angle_bracket}) (line_placeholders nl) = [])"
    by (simp add: template_placeholders_def find_placeholders_def filter_concat o_def)
  also have "\<dots> \<longleftrightarrow> (\<forall>nl \<in> set (enumerate 1 (lines_of c)).
        finditer (match_template ''{{'' ''}}'') None 0 (snd nl) = []
        \<and> finditer (match_template ''<'' ''>'') None 0 (snd nl) = [])"
    by (simp only: filter_line_placeholders)
  also have "\<dots> \<longleftrightarrow> (\<forall>l \<in> snd ` set (enumerate 1 (lines_of c)).
        finditer (match_template ''{{'' ''}}'') None 0 l = []
        \<and> finditer (match_template ''<'' ''>'') None 0 l = [])"
    by blast
  finally show ?thesis by (simp only: set_enumerate_snd)
qed

lemma newline_no_name_char: "\<not> name_start (CHR 0x0A)" "\<not> name_char (CHR 0x0A)"
  by (simp_all add: name_start_def name_char_def is_ascii_upper_def is_digit_def)

lemma closing_no_name_char: "\<not> name_char (CHR ''}'')" "\<not> name_char (CHR ''>'')"
  by (simp_all add: name_char_def is_ascii_upper_def is_digit_def)

lemma valid_name_no_newline: "valid_name name \<Longrightarrow> CHR 0x0A \<notin> set name"
proof (cases name)
  case Nil
  then show ?thesis by simp
next
  case (Cons c cs)
  assume "valid_name name"
  with Cons have "name_start c" and "\<forall>x \<in> set cs. name_char x"
    by (simp_all add: valid_name_def list_all_iff)
  then have "c \<noteq> CHR 0x0A" and "CHR 0x0A \<notin> set cs"
    using newline_no_name_char by auto
  with Cons show ?thesis by simp
qed

lemma token_hit:
  assumes "valid_name name" and "cls \<noteq> []" and "\<not> name_char (hd cls)"
    and "CHR 0x0A \<notin> set opn" and "CHR 0x0A \<notin> set cls"
  shows "\<exists>l \<in> set (lines_of (pre @ opn @ name @ cls @ post)).
           finditer (match_template opn cls) None 0 l \<noteq> []"
proof -
  have "CHR 0x0A \<notin> set (opn @ name @ cls)"
    using assms valid_name_no_newline by simp
  from split_on_contains [OF this, of pre post]
  obtain l a b where l: "l \<in> set (lines_of (pre @ opn @ name @ cls @ post))"
    and eq: "l = a @ (opn @ name @ cls) @ b"
    by (auto simp: lines_of_def)
  have "\<And>p. match_template opn cls p (opn @ name @ cls @ b) \<noteq> None"
    by (rule match_template_hit [OF assms(1-3)])
  then have "finditer (match_template opn cls) None 0 (a @ (opn @ name @ cls @ b)) \<noteq> []"
    by (rule finditer_hit) simp
  then show ?thesis using l eq by auto
qed

lemma hit_token:
  assumes "l \<in> set (lines_of c)" and "finditer (match_template opn cls) None 0 l \<noteq> []"
  shows "\<exists>pre name post. valid_name name \<and> c = pre @ opn @ name @ cls @ post"
proof -
  from assms(2) obtain x where "x \<in> set (finditer (match_template opn cls) None 0 l)"
    by (cases "finditer (match_template opn cls) None 0 l") auto
  from finditer_sound [OF this] obtain a b p n where
    l: "l = a @ b" and m: "match_template opn cls p b = Some n" by blast
  from match_template_Some [OF m] obtain name r where
    name: "valid_name name" and b: "b = opn @ name @ cls @ r" by blast
  from split_on_part [of l "CHR 0x0A" c] assms(1) obtain a0 b0 where "c = a0 @ l @ b0"
    by (auto simp: lines_of_def)
  then have "c = (a0 @ a) @ opn @ name @ cls @ (r @ b0)" using l b by simp
  then show ?thesis using name by blast
qed

lemma passed_iff_no_token:
  "l0_passed (validate_l0 c) = (\<not> has_template_token c)"
proof
  assume p: "l0_passed (validate_l0 c)"
  then have none: "\<forall>l \<in> set (lines_of c). finditer (match_template ''{{'' ''}}'') None 0 l = []
        \<and> finditer (match_template ''<'' ''>'') None 0 l = []"
    by (simp add: validate_l0_def template_placeholders_empty)
  show "\<not> has_template_token c"
  proof
    assume "has_template_token c"
    then obtain pre name post where name: "valid_name name"
      and c: "c = pre @ ''{{'' @ name @ ''}}'' @ post \<or> c = pre @ ''<'' @ name @ ''>'' @ post"
      by (auto simp: has_template_token_def)
    from c show False
    proof
      assume "c = pre @ ''{{'' @ name @ ''}}'' @ post"
      moreover have "\<exists>l \<in> set (lines_of (pre @ ''{{'' @ name @ ''}}'' @ post)).
           finditer (match_template ''{{'' ''}}'') None 0 l \<noteq> []"
        by (rule token_hit [OF name]) (simp_all add: closing_no_name_char)
      ultimately show False using none by blast
    next
      assume "c = pre @ ''<'' @ name @ ''>'' @ post"
      moreover have "\<exists>l \<in> set (lines_of (pre @ ''<'' @ name @ ''>'' @ post)).
           finditer (match_template ''<'' ''>'') None 0 l \<noteq> []"
        by (rule token_hit [OF name]) (simp_all add: closing_no_name_char)
      ultimately show False using none by blast
    qed
  qed
next
  assume n: "\<not> has_template_token c"
  have "template_placeholders c = []"
    unfolding template_placeholders_empty
  proof (intro ballI conjI)
    fix l assume l: "l \<in> set (lines_of c)"
    show "finditer (match_template ''{{'' ''}}'') None 0 l = []"
    proof (rule ccontr)
      assume "finditer (match_template ''{{'' ''}}'') None 0 l \<noteq> []"
      from hit_token [OF l this] n show False
        by (auto simp: has_template_token_def)
    qed
    show "finditer (match_template ''<'' ''>'') None 0 l = []"
    proof (rule ccontr)
      assume "finditer (match_template ''<'' ''>'') None 0 l \<noteq> []"
      from hit_token [OF l this] n show False
        by (auto simp: has_template_token_def)
    qed
  qed
  then show "l0_passed (validate_l0 c)" by (simp add: validate_l0_def)
qed

text \<open>
  Claim C5. L0 passes exactly when no blocking hit was found; \<open>unresolved_count\<close> is the
  number of blocking hits, and \<open>placeholders_found\<close> lists the blocking hits, then the marker
  hits. A text that holds a token \<^verbatim>\<open>{{NAME}}\<close> or \<^verbatim>\<open><NAME>\<close> anywhere fails with a count of at
  least one; a text that holds none passes, whatever markers it holds.
\<close>

theorem validate_l0_blocking:
  "l0_passed (validate_l0 c) = (unresolved_count (validate_l0 c) = 0)
   \<and> unresolved_count (validate_l0 c) = length (template_placeholders c)
   \<and> placeholders_found (validate_l0 c)
       = map fst (template_placeholders c) @ map fst (markers c)
   \<and> l0_passed (validate_l0 c) = (\<not> has_template_token c)
   \<and> (has_template_token c \<longrightarrow> 1 \<le> unresolved_count (validate_l0 c))"
proof -
  have a: "l0_passed (validate_l0 c) = (unresolved_count (validate_l0 c) = 0)"
    by (simp add: validate_l0_def)
  have b: "l0_passed (validate_l0 c) = (\<not> has_template_token c)"
    by (rule passed_iff_no_token)
  from a b have "has_template_token c \<longrightarrow> 1 \<le> unresolved_count (validate_l0 c)"
    by (cases "unresolved_count (validate_l0 c)") auto
  with a b show ?thesis by (simp add: validate_l0_def)
qed

text \<open>
  The deck of scenario A fails on its one placeholder; a deck with a TODO marker only
  passes, and the marker is listed.
\<close>

theorem validate_l0_blocking_witness:
  "\<not> l0_passed (validate_l0 ''units lj\<newline>timestep {{TS}}'')
   \<and> unresolved_count (validate_l0 ''units lj\<newline>timestep {{TS}}'') = 1
   \<and> placeholders_found (validate_l0 ''units lj\<newline>timestep {{TS}}'') = [''{{TS}}'']
   \<and> has_template_token ''units lj\<newline>timestep {{TS}}''
   \<and> l0_passed (validate_l0 ''units lj # TODO: tune the cutoff'')
   \<and> \<not> has_template_token ''units lj # TODO: tune the cutoff''
   \<and> placeholders_found (validate_l0 ''units lj # TODO: tune the cutoff'')
       = [''TODO: tune the cutoff'']"
  (is "\<not> l0_passed (validate_l0 ?A) \<and> _ \<and> _ \<and> _ \<and> l0_passed (validate_l0 ?B) \<and> _ \<and> _")
proof -
  have t: "template_placeholders ?A = [(''{{TS}}'', double_brace, 2)]"
    by code_simp
  have m: "markers ?A = []"
    by code_simp
  have t': "template_placeholders ?B = []"
    by code_simp
  have m': "markers ?B = [(''TODO: tune the cutoff'', todo, 1)]"
    by code_simp
  note A = validate_l0_blocking [of ?A]
  note B = validate_l0_blocking [of ?B]
  have cA: "unresolved_count (validate_l0 ?A) = 1" using A t by simp
  have fA: "placeholders_found (validate_l0 ?A) = [''{{TS}}'']" using A t m by simp
  have pA: "\<not> l0_passed (validate_l0 ?A)" using A cA by simp
  have hA: "has_template_token ?A" using A pA by blast
  have cB: "unresolved_count (validate_l0 ?B) = 0" using B t' by simp
  have fB: "placeholders_found (validate_l0 ?B) = [''TODO: tune the cutoff'']"
    using B t' m' by simp
  have pB: "l0_passed (validate_l0 ?B)" using B cB by simp
  have hB: "\<not> has_template_token ?B" using B pB by blast
  from cA fA pA hA fB pB hB show ?thesis by blast
qed

end
